theory Spec2Isabelle
  imports Complex_Main
begin

section \<open>Python primitives used by the service\<close>

text \<open>
  Exceptions are values. Only subclasses of \<open>Exception\<close> occur: they are what the
  \<open>except Exception\<close> clauses of \<open>service.py\<close> catch.
\<close>

datatype error = ValueError string | OverflowError | OtherException string

text \<open>
  Texts are lists of 8-bit characters, one per code point. \<open>is_space\<close> lists the
  characters in that range that \<open>str.split()\<close> and \<open>str.strip()\<close> treat as
  whitespace.
\<close>

definition is_space :: "char \<Rightarrow> bool" where
  "is_space c \<longleftrightarrow> c \<in> set [CHR 0x09, CHR 0x0A, CHR 0x0B, CHR 0x0C, CHR 0x0D,
     CHR 0x1C, CHR 0x1D, CHR 0x1E, CHR 0x1F, CHR 0x20, CHR 0x85, CHR 0xA0]"

definition strip :: "string \<Rightarrow> string" where
  "strip s = rev (dropWhile is_space (rev (dropWhile is_space s)))"

text \<open>\<open>s.split()\<close>: the maximal runs of non-whitespace, in order.\<close>

fun split_acc :: "string \<Rightarrow> string \<Rightarrow> string list" where
  "split_acc w [] = (if w = [] then [] else [w])"
| "split_acc w (c # cs) =
     (if is_space c then (if w = [] then split_acc [] cs else w # split_acc [] cs)
      else split_acc (w @ [c]) cs)"

definition split_ws :: "string \<Rightarrow> string list" where
  "split_ws s = split_acc [] s"

text \<open>\<open>sep.join(ws)\<close>.\<close>

fun join :: "string \<Rightarrow> string list \<Rightarrow> string" where
  "join sep [] = []"
| "join sep [w] = w"
| "join sep (w # v # ws) = w @ sep @ join sep (v # ws)"

text \<open>
  The slice \<open>xs[:n]\<close>: the first \<open>n\<close> elements, and for a negative \<open>n\<close> all but
  the last \<open>-n\<close> (none when the list is shorter than that).
\<close>

definition py_take :: "int \<Rightarrow> 'a list \<Rightarrow> 'a list" where
  "py_take n xs = (if 0 \<le> n then take (nat n) xs else take (length xs - nat (- n)) xs)"

text \<open>
  \<open>int(s)\<close> for a text \<open>s\<close>, base 10: surrounding whitespace is dropped, one sign is
  allowed, single underscores may separate digits, and (Python 3.11, the version the
  service's image declares) more than 4300 digits are refused. Every refusal is a
  ValueError carrying the offending text. The whitespace \<open>int\<close> drops is narrower than
  that of \<open>str.strip()\<close>: the separators U+001C to U+001F are not part of it.
\<close>

definition is_int_space :: "char \<Rightarrow> bool" where
  "is_int_space c \<longleftrightarrow> c \<in> set [CHR 0x09, CHR 0x0A, CHR 0x0B, CHR 0x0C, CHR 0x0D,
     CHR 0x20, CHR 0x85, CHR 0xA0]"

definition int_strip :: "string \<Rightarrow> string" where
  "int_strip s = rev (dropWhile is_int_space (rev (dropWhile is_int_space s)))"

definition is_digit :: "char \<Rightarrow> bool" where
  "is_digit c \<longleftrightarrow> (48::nat) \<le> of_char c \<and> of_char c \<le> (57::nat)"

definition digit_val :: "char \<Rightarrow> int" where
  "digit_val c = of_char c - 48"

fun int_digits :: "int \<Rightarrow> string \<Rightarrow> int option" where
  "int_digits acc [] = Some acc"
| "int_digits acc (c # cs) =
     (if is_digit c then int_digits (10 * acc + digit_val c) cs
      else if c = CHR ''_'' then
        (case cs of
           [] \<Rightarrow> None
         | d # ds \<Rightarrow> if is_digit d then int_digits (10 * acc + digit_val d) ds else None)
      else None)"

definition py_int :: "string \<Rightarrow> error + int" where
  "py_int s =
     (let t = int_strip s;
          neg = (case t of c # _ \<Rightarrow> c = CHR ''-'' | [] \<Rightarrow> False);
          body = (case t of c # r \<Rightarrow> if c = CHR ''-'' \<or> c = CHR ''+'' then r else t | [] \<Rightarrow> t)
      in case body of
           [] \<Rightarrow> Inl (ValueError s)
         | c # cs \<Rightarrow>
             if \<not> is_digit c \<or> 4300 < length (filter is_digit body) then Inl (ValueError s)
             else (case int_digits (digit_val c) cs of
                     None \<Rightarrow> Inl (ValueError s)
                   | Some n \<Rightarrow> Inr (if neg then - n else n)))"

text \<open>
  \<open>random.choice(xs)\<close>: the random source is a sequence of draws, read at a position
  that the caller advances; a draw selects an index of the (non-empty) list.
\<close>

definition random_choice :: "(nat \<Rightarrow> nat) \<Rightarrow> nat \<Rightarrow> 'a list \<Rightarrow> 'a" where
  "random_choice draws pos xs = xs ! (draws pos mod length xs)"

section \<open>The tokenizer held by the service\<close>

text \<open>
  \<open>tiktoken\<close> is an external library: the service sees an object with \<open>encode\<close> and
  \<open>decode\<close>, either of which may raise. \<open>self.encoding\<close> is that object, or \<open>None\<close>
  when \<open>tiktoken.get_encoding\<close> raised in \<open>__init__\<close>.
\<close>

record 't encoder =
  encode :: "string \<Rightarrow> error + 't list"
  decode :: "'t list \<Rightarrow> error + string"

definition init_encoding :: "error + 't encoder \<Rightarrow> 't encoder option" where
  "init_encoding get_encoding =
     (case get_encoding of Inl _ \<Rightarrow> None | Inr e \<Rightarrow> Some e)"

definition count_tokens :: "'t encoder option \<Rightarrow> string \<Rightarrow> int" where
  "count_tokens encoding text_in =
     (case encoding of
        None \<Rightarrow> int (length text_in) div 4
      | Some e \<Rightarrow>
          (case encode e text_in of
             Inr ts \<Rightarrow> int (length ts)
           | Inl _ \<Rightarrow> int (length text_in) div 4))"

section \<open>Floating point, time and randomness as the service's environment\<close>

text \<open>
  Binary64 arithmetic is not modelled: the delays are values of a type \<open>'f\<close> that the
  service only passes on to \<open>asyncio.sleep\<close>, and the operations on them are taken from
  the Python runtime.
  \<^item> \<open>float_of_str s\<close> is \<open>float(s)\<close> for a header text, which raises ValueError on a
    text that is no number;
  \<^item> \<open>float_of_int n\<close> is \<open>float(n)\<close> for the integer defaults;
  \<^item> \<open>div_1000 x\<close> is \<open>x / 1000.0\<close>;
  \<^item> \<open>estimated_words n\<close> is \<open>int(max(1, n // 1.3))\<close>, which raises OverflowError
    when \<open>n\<close> is too large to convert to a float;
  \<^item> \<open>str_of_messages ms\<close> is \<open>str(ms)\<close> for the request's list of messages.
\<close>

record ImageUrl =
  iu_url :: string
  iu_detail :: "string option"

record ContentItem =
  ci_type :: string
  ci_text :: "string option"
  ci_image_url :: "ImageUrl option"

datatype message_content = Plain string | Items "ContentItem list"

record Message =
  msg_role :: string
  msg_content :: "message_content option"

record 'f runtime =
  float_of_str :: "string \<Rightarrow> error + 'f"
  float_of_int :: "int \<Rightarrow> 'f"
  div_1000 :: "'f \<Rightarrow> 'f"
  estimated_words :: "int \<Rightarrow> error + int"
  str_of_messages :: "Message list \<Rightarrow> string"

text \<open>
  What one request reads from the outside world: the hexadecimal text of
  \<open>uuid.uuid4()\<close>, the clock, and the random source. \<open>time_time ds\<close> is the value
  \<open>int(time.time())\<close> has once the delays \<open>ds\<close> have been awaited, so a reading
  taken before any delay is \<open>time_time []\<close>.
\<close>

record 'f env =
  uuid4_hex :: string
  time_time :: "'f list \<Rightarrow> int"
  draws :: "nat \<Rightarrow> nat"

section \<open>The content synthesizer\<close>

definition sample_responses :: "string list" where
  "sample_responses =
    [''Hello! How can I assist you today?'',
     ''I'm here to help you with any questions you might have.'',
     ''That's an interesting question. Let me think about it.'',
     ''I understand what you're asking. Here's my response:'',
     ''Thank you for your question. I'd be happy to help.'',
     ''Based on the information provided, I can offer the following insights:'',
     ''Let me provide you with a comprehensive answer to your query.'',
     ''I appreciate you reaching out. Here's what I can tell you:'']"

definition filler_phrases :: "string list" where
  "filler_phrases =
    [''Additionally, I want to mention that'',
     ''Furthermore, it's important to note that'',
     ''Moreover, we should consider that'',
     ''In fact, this reminds me that'',
     ''It's worth noting that'',
     ''Please also consider that'',
     ''Also, I should add that'',
     ''On a related note,'',
     ''To elaborate further,'',
     ''In this context,'']"

definition extension_templates :: "string list" where
  "extension_templates =
    [''this is a very interesting topic that deserves careful consideration'',
     ''there are many aspects to explore in this particular area of discussion'',
     ''we can approach this from multiple different perspectives and viewpoints'',
     ''the implications of this are quite significant and far-reaching in nature'',
     ''this subject matter has various nuances that are worth examining closely'',
     ''there are several factors that contribute to the overall understanding here'',
     ''the complexity of this issue requires thorough analysis and careful thought'']"

text \<open>The f-string \<open>f" {filler} {extension}."\<close>.\<close>

definition addition_of :: "string \<Rightarrow> string \<Rightarrow> string" where
  "addition_of filler extension = '' '' @ filler @ '' '' @ extension @ ''.''"

text \<open>
  The \<open>try\<close> block of the truncation branch: \<open>None\<close> when there is no encoder or
  when \<open>encode\<close> or \<open>decode\<close> raised (the \<open>except\<close> clause passes).
\<close>

definition truncate_exact :: "'t encoder option \<Rightarrow> string \<Rightarrow> int \<Rightarrow> string option" where
  "truncate_exact encoding current_content target_tokens =
     (case encoding of
        None \<Rightarrow> None
      | Some e \<Rightarrow>
          (case encode e current_content of
             Inl _ \<Rightarrow> None
           | Inr encoded \<Rightarrow>
               (case decode e (py_take target_tokens encoded) of
                  Inl _ \<Rightarrow> None
                | Inr truncated \<Rightarrow> Some truncated)))"

text \<open>The fallback of the truncation branch: the first words of the base phrase.\<close>

definition truncate_words :: "'f runtime \<Rightarrow> string \<Rightarrow> int \<Rightarrow> error + string" where
  "truncate_words R current_content target_tokens =
     (case estimated_words R target_tokens of
        Inl err \<Rightarrow> Inl err
      | Inr k \<Rightarrow> Inr (join '' '' (py_take k (split_ws current_content))))"

text \<open>
  The \<open>else\<close> branch of the loop body, which ends the loop: what is appended when the
  whole addition does not fit.
\<close>

definition partial_addition :: "'t encoder option \<Rightarrow> string \<Rightarrow> int \<Rightarrow> string" where
  "partial_addition encoding addition remaining_tokens =
     (if 0 < remaining_tokens then
        (case encoding of
           Some e \<Rightarrow>
             (case encode e addition of
                Inl _ \<Rightarrow> '' more''
              | Inr encoded_addition \<Rightarrow>
                  (case decode e (py_take remaining_tokens encoded_addition) of
                     Inl _ \<Rightarrow> '' more''
                   | Inr partial \<Rightarrow> partial))
         | None \<Rightarrow> '' more'')
      else [])"

text \<open>
  One pass through the loop body, entered with \<open>current_tokens < target_tokens\<close>:
  \<open>Inl\<close> is the state for the next pass, \<open>Inr\<close> the content at the \<open>break\<close>.
  Each pass reads two draws.
\<close>

definition loop_body ::
  "'t encoder option \<Rightarrow> (nat \<Rightarrow> nat) \<Rightarrow> int \<Rightarrow> nat \<Rightarrow> string \<Rightarrow> int
     \<Rightarrow> (nat \<times> string \<times> int) + string" where
  "loop_body encoding rnd target_tokens pos current_content current_tokens =
     (let filler = random_choice rnd pos filler_phrases;
          extension = random_choice rnd (pos + 1) extension_templates;
          addition = addition_of filler extension;
          addition_tokens = count_tokens encoding addition
      in if current_tokens + addition_tokens \<le> target_tokens
         then Inl (pos + 2, current_content @ addition, current_tokens + addition_tokens)
         else Inr (current_content
                   @ partial_addition encoding addition (target_tokens - current_tokens)))"

text \<open>
  The \<open>while\<close> loop. Nothing bounds the number of passes when an addition counts as
  zero tokens, so the loop is a partial function: \<open>None\<close> is a run that never ends.
\<close>

partial_function (option) extend_loop ::
  "'t encoder option \<Rightarrow> (nat \<Rightarrow> nat) \<Rightarrow> int \<Rightarrow> nat \<Rightarrow> string \<Rightarrow> int \<Rightarrow> string option" where
  "extend_loop encoding rnd target_tokens pos current_content current_tokens =
     (if current_tokens < target_tokens then
        (case loop_body encoding rnd target_tokens pos current_content current_tokens of
           Inl (pos', content', tokens') \<Rightarrow>
             extend_loop encoding rnd target_tokens pos' content' tokens'
         | Inr content' \<Rightarrow> Some content')
      else Some current_content)"

declare extend_loop.simps [code]

definition generate_response_content ::
  "'f runtime \<Rightarrow> 't encoder option \<Rightarrow> (nat \<Rightarrow> nat) \<Rightarrow> int \<Rightarrow> (error + string) option" where
  "generate_response_content R encoding rnd target_tokens =
     (let base_response = random_choice rnd 0 sample_responses;
          current_content = base_response;
          current_tokens = count_tokens encoding current_content
      in if target_tokens \<le> current_tokens then
           (case truncate_exact encoding current_content target_tokens of
              Some truncated \<Rightarrow> Some (Inr truncated)
            | None \<Rightarrow> Some (truncate_words R current_content target_tokens))
         else
           (case extend_loop encoding rnd target_tokens 1 current_content current_tokens of
              None \<Rightarrow> None
            | Some content \<Rightarrow> Some (Inr (strip content))))"

section \<open>Requests, responses and stream chunks\<close>

record 'f ChatCompletionRequest =
  rq_model :: string
  rq_messages :: "Message list"
  rq_stream :: "bool option"
  rq_max_tokens :: "int option"
  rq_temperature :: "'f option"

record Choice =
  ch_index :: int
  ch_message :: Message
  ch_finish_reason :: "string option"

record Usage =
  prompt_tokens :: int
  completion_tokens :: int
  total_tokens :: int

record ChatCompletionResponse =
  ccr_id :: string
  ccr_object :: string
  ccr_created :: int
  ccr_model :: string
  ccr_choices :: "Choice list"
  ccr_usage :: Usage

text \<open>A \<open>delta\<close> is a dictionary with text values, kept in insertion order.\<close>

record DeltaChoice =
  dc_index :: int
  dc_delta :: "(string \<times> string) list"
  dc_finish_reason :: "string option"

record ChatCompletionStreamResponse =
  csr_id :: string
  csr_object :: string
  csr_created :: int
  csr_model :: string
  csr_choices :: "DeltaChoice list"

text \<open>
  A frame the generator yields: \<open>Data c\<close> is the text
  \<open>f"data: {c.model_dump_json()}\n\n"\<close>, \<open>Literal s\<close> is the text \<open>s\<close> itself.
  \<open>wire\<close> gives the text for a JSON serializer \<open>dump\<close>.
\<close>

datatype frame = Data ChatCompletionStreamResponse | Literal string

definition wire :: "(ChatCompletionStreamResponse \<Rightarrow> string) \<Rightarrow> frame \<Rightarrow> string" where
  "wire dump f =
     (case f of Data c \<Rightarrow> ''data: '' @ dump c @ ''\<newline>\<newline>'' | Literal s \<Rightarrow> s)"

definition done_frame :: frame where
  "done_frame = Literal ''data: [DONE]\<newline>\<newline>''"

text \<open>What a coroutine does, in order: it awaits a delay or yields a frame.\<close>

datatype 'f event = Sleep 'f | Yield frame

text \<open>
  The incoming request: \<open>json_body\<close> is the outcome of \<open>await request.json()\<close>
  followed by \<open>ChatCompletionRequest(**body)\<close> (either may raise), \<open>headers\<close> is
  the header lookup \<open>request.headers.get\<close>, asked with the names the service
  writes.
\<close>

record 'f request =
  json_body :: "error + 'f ChatCompletionRequest"
  headers :: "string \<rightharpoonup> string"

text \<open>
  What the endpoint gives back: the raised \<open>HTTPException\<close> (its detail is the text
  of the caught exception), the dictionary of a completed message together with the
  delays awaited before it, or a \<open>StreamingResponse\<close> around the generator. The
  generator's run is the events it produced and the exception that ended it, if one did;
  \<open>None\<close> is a generator that never gets past the synthesizer.
\<close>

datatype 'f response =
    HTTPException int error
  | Completed "'f event list" ChatCompletionResponse
  | StreamingResponse "('f event list \<times> error option) option"

section \<open>The timing controller\<close>

definition get_timing_params :: "'f runtime \<Rightarrow> 'f request \<Rightarrow> error + ('f \<times> 'f \<times> int)" where
  "get_timing_params R request =
     (case (case headers request ''X-TTFT-MS'' of
              None \<Rightarrow> Inr (float_of_int R 100)
            | Some v \<Rightarrow> float_of_str R v) of
        Inl err \<Rightarrow> Inl err
      | Inr ttft_ms \<Rightarrow>
          (case (case headers request ''X-ITL-MS'' of
                   None \<Rightarrow> Inr (float_of_int R 50)
                 | Some v \<Rightarrow> float_of_str R v) of
             Inl err \<Rightarrow> Inl err
           | Inr itl_ms \<Rightarrow>
               (case (case headers request ''X-OUTPUT-LENGTH'' of
                        None \<Rightarrow> Inr 20
                      | Some v \<Rightarrow> py_int v) of
                  Inl err \<Rightarrow> Inl err
                | Inr output_length \<Rightarrow>
                    Inr (div_1000 R ttft_ms, div_1000 R itl_ms, output_length))))"

section \<open>The completion engine\<close>

definition stream_chunk ::
  "string \<Rightarrow> int \<Rightarrow> string \<Rightarrow> (string \<times> string) list \<Rightarrow> string option
     \<Rightarrow> ChatCompletionStreamResponse" where
  "stream_chunk request_id created model_name delta finish =
     \<lparr>csr_id = request_id, csr_object = ''chat.completion.chunk'',
      csr_created = created, csr_model = model_name,
      csr_choices = [\<lparr>dc_index = 0, dc_delta = delta, dc_finish_reason = finish\<rparr>]\<rparr>"

text \<open>
  The word-based loop, started at index \<open>i\<close>: a delay before every word but the
  first, and each word sent with one space after it.
\<close>

fun stream_words :: "'f \<Rightarrow> (string \<Rightarrow> frame) \<Rightarrow> nat \<Rightarrow> string list \<Rightarrow> 'f event list" where
  "stream_words itl mk i [] = []"
| "stream_words itl mk i (word # ws) =
     (if 0 < i then [Sleep itl] else []) @ [Yield (mk (word @ '' ''))]
       @ stream_words itl mk (Suc i) ws"

text \<open>
  The token loop inside the \<open>try\<close>: the events it produced, and the exception of
  \<open>decode\<close> that cut it short, if any.
\<close>

fun stream_tokens ::
  "'t encoder \<Rightarrow> 'f \<Rightarrow> (string \<Rightarrow> frame) \<Rightarrow> nat \<Rightarrow> 't list \<Rightarrow> 'f event list \<times> error option" where
  "stream_tokens e itl mk i [] = ([], None)"
| "stream_tokens e itl mk i (token # ts) =
     (let waited = (if 0 < i then [Sleep itl] else [])
      in case decode e [token] of
           Inl err \<Rightarrow> (waited, Some err)
         | Inr token_text \<Rightarrow>
             (case stream_tokens e itl mk (Suc i) ts of
                (evs, r) \<Rightarrow> (waited @ [Yield (mk token_text)] @ evs, r)))"

text \<open>
  The part of the generator between the role chunk and the final chunk. An exception
  inside the \<open>try\<close> (from \<open>encode\<close>, or from \<open>decode\<close> after some token chunks
  were sent) starts the word-based loop over the whole content.
\<close>

definition stream_body ::
  "'t encoder option \<Rightarrow> 'f \<Rightarrow> (string \<Rightarrow> frame) \<Rightarrow> string \<Rightarrow> 'f event list" where
  "stream_body encoding itl mk content =
     (case encoding of
        Some e \<Rightarrow>
          (case encode e content of
             Inl _ \<Rightarrow> stream_words itl mk 0 (split_ws content)
           | Inr tokens \<Rightarrow>
               (case stream_tokens e itl mk 0 tokens of
                  (evs, None) \<Rightarrow> evs
                | (evs, Some _) \<Rightarrow> evs @ stream_words itl mk 0 (split_ws content)))
      | None \<Rightarrow> stream_words itl mk 0 (split_ws content))"

definition stream_response ::
  "'f runtime \<Rightarrow> 't encoder option \<Rightarrow> 'f env \<Rightarrow> 'f ChatCompletionRequest \<Rightarrow> 'f \<Rightarrow> 'f \<Rightarrow> int
     \<Rightarrow> ('f event list \<times> error option) option" where
  "stream_response R encoding world request_data ttft itl output_length =
     (let request_id = ''chatcmpl-'' @ take 8 (uuid4_hex world);
          created = time_time world [];
          chunk = stream_chunk request_id created (rq_model request_data)
      in case generate_response_content R encoding (draws world) output_length of
           None \<Rightarrow> None
         | Some (Inl err) \<Rightarrow> Some ([Sleep ttft], Some err)
         | Some (Inr content) \<Rightarrow>
             Some ([Sleep ttft,
                    Yield (Data (chunk [(''role'', ''assistant''), (''content'', [])] None))]
                   @ stream_body encoding itl
                       (\<lambda>t. Data (chunk [(''content'', t)] None)) content
                   @ [Yield (Data (chunk [] (Some ''stop''))), Yield done_frame],
                   None))"

definition completion ::
  "'f runtime \<Rightarrow> 't encoder option \<Rightarrow> 'f env \<Rightarrow> 'f ChatCompletionRequest \<Rightarrow> 'f \<Rightarrow> string
     \<Rightarrow> ChatCompletionResponse" where
  "completion R encoding world request_data ttft content =
     (let prompt = int (length (str_of_messages R (rq_messages request_data))) div 4;
          completion_count = count_tokens encoding content
      in \<lparr>ccr_id = ''chatcmpl-'' @ take 8 (uuid4_hex world),
          ccr_object = ''chat.completion'',
          ccr_created = time_time world [ttft],
          ccr_model = rq_model request_data,
          ccr_choices = [\<lparr>ch_index = 0,
                           ch_message = \<lparr>msg_role = ''assistant'',
                                          msg_content = Some (Plain content)\<rparr>,
                           ch_finish_reason = Some ''stop''\<rparr>],
          ccr_usage = \<lparr>prompt_tokens = prompt, completion_tokens = completion_count,
                        total_tokens = prompt + completion_count\<rparr>\<rparr>)"

text \<open>
  The endpoint. Every exception raised inside its \<open>try\<close> becomes HTTP 400; \<open>None\<close>
  is a non-streaming request whose synthesizer never returns.
\<close>

definition chat_completions ::
  "'f runtime \<Rightarrow> 't encoder option \<Rightarrow> 'f env \<Rightarrow> 'f request \<Rightarrow> 'f response option" where
  "chat_completions R encoding world request =
     (case json_body request of
        Inl err \<Rightarrow> Some (HTTPException 400 err)
      | Inr request_data \<Rightarrow>
          (case get_timing_params R request of
             Inl err \<Rightarrow> Some (HTTPException 400 err)
           | Inr (ttft, itl, output_length) \<Rightarrow>
               if rq_stream request_data = Some True then
                 Some (StreamingResponse
                         (stream_response R encoding world request_data ttft itl output_length))
               else
                 (case generate_response_content R encoding (draws world) output_length of
                    None \<Rightarrow> None
                  | Some (Inl err) \<Rightarrow> Some (HTTPException 400 err)
                  | Some (Inr content) \<Rightarrow>
                      Some (Completed [Sleep ttft]
                              (completion R encoding world request_data ttft content)))))"

section \<open>Properties of a tokenizer\<close>

text \<open>The text of a token list when \<open>decode\<close> does not raise on it.\<close>

definition text_of :: "'t encoder \<Rightarrow> 't list \<Rightarrow> string" where
  "text_of e ts = (case decode e ts of Inr s \<Rightarrow> s | Inl _ \<Rightarrow> [])"






section \<open>Reading a generator's run\<close>

definition frames_of :: "'f event list \<Rightarrow> frame list" where
  "frames_of evs = concat (map (\<lambda>ev. case ev of Yield f \<Rightarrow> [f] | Sleep _ \<Rightarrow> []) evs)"

definition chunks_of :: "'f event list \<Rightarrow> ChatCompletionStreamResponse list" where
  "chunks_of evs =
     concat (map (\<lambda>f. case f of Data c \<Rightarrow> [c] | Literal _ \<Rightarrow> []) (frames_of evs))"





text \<open>
  The content of the message a response carries, and the events of a generator that ran
  to its end; \<open>with_stream\<close> sets the request's \<open>stream\<close> field.
\<close>

definition completed_content :: "'f response option \<Rightarrow> string option" where
  "completed_content r =
     (case r of
        Some (Completed _ resp) \<Rightarrow>
          (case ccr_choices resp of
             [ch] \<Rightarrow> (case msg_content (ch_message ch) of
                        Some (Plain c) \<Rightarrow> Some c
                      | _ \<Rightarrow> None)
           | _ \<Rightarrow> None)
      | _ \<Rightarrow> None)"



definition with_stream :: "bool \<Rightarrow> 'f request \<Rightarrow> 'f request" where
  "with_stream b request =
     request\<lparr>json_body :=
       (case json_body request of
          Inl err \<Rightarrow> Inl err
        | Inr rd \<Rightarrow> Inr (rd\<lparr>rq_stream := Some b\<rparr>))\<rparr>"

section \<open>A word tokenizer and a sample request\<close>

text \<open>
  A tokenizer to run the service with: a token is a piece of the text that starts at a
  space and runs up to the next one, and decoding concatenates the pieces.
\<close>

fun pieces :: "string \<Rightarrow> string list" where
  "pieces [] = []"
| "pieces (c # cs) =
     (case pieces cs of
        [] \<Rightarrow> [[c]]
      | p # ps \<Rightarrow> if take 1 p = '' '' then [c] # p # ps else (c # p) # ps)"

text \<open>An encoder whose every call raises.\<close>

definition raising_encoder :: "nat encoder" where
  "raising_encoder =
     \<lparr>encode = (\<lambda>s. Inl (OtherException s)), decode = (\<lambda>ts. Inl (OtherException []))\<rparr>"

definition word_encoder :: "string encoder" where
  "word_encoder = \<lparr>encode = (\<lambda>s. Inr (pieces s)), decode = (\<lambda>ts. Inr (concat ts))\<rparr>"





text \<open>
  A runtime whose delays are rationals. Header texts are read as whole numbers. The word
  estimate refuses a target that is too large to convert to a float (from
  \<open>2^1024 - 2^970\<close> on, in absolute value) and otherwise divides by the binary64
  value nearest to 1.3, which is what Python computes for targets up to \<open>2^51\<close> in
  absolute value. A list of messages is written as Pydantic writes it when roles and
  contents need no escaping.
\<close>

definition message_text :: "Message \<Rightarrow> string" where
  "message_text m =
     ''Message(role='' @ [CHR 0x27] @ msg_role m @ [CHR 0x27] @ '', content=''
       @ (case msg_content m of
            None \<Rightarrow> ''None''
          | Some (Plain c) \<Rightarrow> [CHR 0x27] @ c @ [CHR 0x27]
          | Some (Items _) \<Rightarrow> ''[...]'')
       @ '')''"

definition sample_runtime :: "rat runtime" where
  "sample_runtime =
     \<lparr>float_of_str = (\<lambda>s. case py_int s of Inl err \<Rightarrow> Inl err | Inr n \<Rightarrow> Inr (of_int n)),
      float_of_int = of_int,
      div_1000 = (\<lambda>x. x / 1000),
      estimated_words =
        (\<lambda>n. if 2 ^ 1024 - 2 ^ 970 \<le> \<bar>n\<bar> then Inl OverflowError
             else Inr (max 1 ((n * 4503599627370496) div 5854679515581645))),
      str_of_messages = (\<lambda>ms. ''['' @ join '', '' (map message_text ms) @ '']'')\<rparr>"

definition sample_env :: "rat env" where
  "sample_env =
     \<lparr>uuid4_hex = ''0123456789abcdef0123456789abcdef'',
      time_time = (\<lambda>ds. 1700000000 + \<lfloor>sum_list (map (max 0) ds)\<rfloor>),
      draws = (\<lambda>_. 0)\<rparr>"

definition sample_request :: "bool \<Rightarrow> (string \<rightharpoonup> string) \<Rightarrow> rat request" where
  "sample_request streaming hs =
     \<lparr>json_body = Inr \<lparr>rq_model = ''gpt-4'',
                        rq_messages = [\<lparr>msg_role = ''user'', msg_content = Some (Plain ''Hi'')\<rparr>],
                        rq_stream = Some streaming,
                        rq_max_tokens = Some 10,
                        rq_temperature = None\<rparr>,
      headers = hs\<rparr>"

section \<open>The tokenizer adapter\<close>

text \<open>
  C6. When the encoder failed to initialize (\<open>self.encoding\<close> is \<open>None\<close>), or when
  \<open>encode\<close> raises on the text, \<open>_count_tokens\<close> returns the length of the text
  divided by 4, rounded down. It returns a number in every case: the function has no
  exceptional result.
\<close>

theorem count_tokens_fallback:
  "count_tokens (init_encoding (Inl err :: error + 't encoder)) s = int (length s) div 4 \<and>
   (encode (e :: 't encoder) s = Inl err' \<longrightarrow>
      count_tokens (Some e) s = int (length s) div 4)"
  by (simp add: count_tokens_def init_encoding_def)

theorem count_tokens_fallback_witness:
  "encode raising_encoder ''abcdefghi'' = Inl (OtherException ''abcdefghi'') \<and>
   count_tokens (Some raising_encoder) ''abcdefghi'' = 2"
  using count_tokens_fallback
    [of OverflowError "''abcdefghi''" raising_encoder "OtherException ''abcdefghi''"]
  by (simp add: raising_encoder_def)

section \<open>Request validation\<close>

text \<open>
  C2, as the code has it. A request whose X-TTFT-MS, X-ITL-MS or X-OUTPUT-LENGTH header is
  not a number (\<open>float\<close>, respectively \<open>int\<close>, raises on it) is answered with HTTP 400,
  whatever the tokenizer and the random source are: the synthesizer is not reached.
  Nothing is said here about negative numbers; they are numbers.
\<close>

theorem non_numeric_header_rejected:
  assumes "(\<exists>v err. headers request ''X-TTFT-MS'' = Some v \<and> float_of_str R v = Inl err)
         \<or> (\<exists>v err. headers request ''X-ITL-MS'' = Some v \<and> float_of_str R v = Inl err)
         \<or> (\<exists>v err. headers request ''X-OUTPUT-LENGTH'' = Some v \<and> py_int v = Inl err)"
  shows "\<exists>err. chat_completions R encoding world request = Some (HTTPException 400 err)"
proof -
  from assms have "\<exists>err. get_timing_params R request = Inl err"
    by (auto simp: get_timing_params_def split: option.splits sum.splits)
  then show ?thesis
    by (auto simp: chat_completions_def split: sum.splits)
qed

theorem non_numeric_header_rejected_witness:
  "headers (sample_request False [''X-OUTPUT-LENGTH'' \<mapsto> ''abc'']) ''X-OUTPUT-LENGTH''
     = Some ''abc''
   \<and> py_int ''abc'' = Inl (ValueError ''abc'')
   \<and> chat_completions sample_runtime (Some word_encoder) sample_env
        (sample_request False [''X-OUTPUT-LENGTH'' \<mapsto> ''abc''])
      = Some (HTTPException 400 (ValueError ''abc''))
   \<and> chat_completions sample_runtime (Some word_encoder) sample_env
        (sample_request False [''X-OUTPUT-LENGTH'' \<mapsto> [CHR ''5'', CHR 0x1F]])
      = Some (HTTPException 400 (ValueError [CHR ''5'', CHR 0x1F]))"
proof -
  have h: "headers (sample_request False [''X-OUTPUT-LENGTH'' \<mapsto> ''abc''])
             ''X-OUTPUT-LENGTH'' = Some ''abc''"
    by (simp add: sample_request_def)
  have p: "py_int ''abc'' = Inl (ValueError ''abc'')"
    by code_simp
  from h p have "\<exists>err. chat_completions sample_runtime (Some word_encoder) sample_env
        (sample_request False [''X-OUTPUT-LENGTH'' \<mapsto> ''abc'']) = Some (HTTPException 400 err)"
    by (intro non_numeric_header_rejected) blast
  moreover have "chat_completions sample_runtime (Some word_encoder) sample_env
        (sample_request False [''X-OUTPUT-LENGTH'' \<mapsto> ''abc''])
      = Some (HTTPException 400 (ValueError ''abc''))"
    by code_simp
  moreover have "chat_completions sample_runtime (Some word_encoder) sample_env
        (sample_request False [''X-OUTPUT-LENGTH'' \<mapsto> [CHR ''5'', CHR 0x1F]])
      = Some (HTTPException 400 (ValueError [CHR ''5'', CHR 0x1F]))"
    by code_simp
  ultimately show ?thesis using h p by simp
qed

text \<open>
  C2 as stated fails: with all three headers negative, X-OUTPUT-LENGTH being -1, the
  request is answered with a completed message whose content is the base phrase without
  its last token.
\<close>

theorem negative_header_accepted:
  "chat_completions sample_runtime (Some word_encoder) sample_env
     (sample_request False
        [''X-TTFT-MS'' \<mapsto> ''-5'', ''X-ITL-MS'' \<mapsto> ''-5'', ''X-OUTPUT-LENGTH'' \<mapsto> ''-1''])
   = Some (Completed [Sleep (- 1 / 200)]
       \<lparr>ccr_id = ''chatcmpl-01234567'', ccr_object = ''chat.completion'',
        ccr_created = 1700000000, ccr_model = ''gpt-4'',
        ccr_choices =
          [\<lparr>ch_index = 0,
            ch_message = \<lparr>msg_role = ''assistant'',
                           msg_content = Some (Plain ''Hello! How can I assist you'')\<rparr>,
            ch_finish_reason = Some ''stop''\<rparr>],
        ccr_usage = \<lparr>prompt_tokens = 9, completion_tokens = 6, total_tokens = 15\<rparr>\<rparr>)"
  by code_simp

section \<open>The non-streaming path\<close>

text \<open>
  C5. In every completed (non-streaming) response, \<open>prompt_tokens\<close> is the length of
  the text of the messages divided by 4, rounded down, \<open>completion_tokens\<close> is the
  tokenizer's count of the content of the returned message, and \<open>total_tokens\<close> is
  their sum.
\<close>

theorem usage_accounting:
  assumes "chat_completions R encoding world request = Some (Completed evs resp)"
  shows "\<exists>rd ch content.
           json_body request = Inr rd \<and> ccr_choices resp = [ch]
           \<and> msg_content (ch_message ch) = Some (Plain content)
           \<and> prompt_tokens (ccr_usage resp)
               = int (length (str_of_messages R (rq_messages rd))) div 4
           \<and> completion_tokens (ccr_usage resp) = count_tokens encoding content
           \<and> total_tokens (ccr_usage resp)
               = prompt_tokens (ccr_usage resp) + completion_tokens (ccr_usage resp)"
  using assms
  by (auto simp: chat_completions_def completion_def Let_def
           split: sum.splits prod.splits if_splits option.splits)

theorem usage_accounting_witness:
  "chat_completions sample_runtime (Some word_encoder) sample_env
     (sample_request False [''X-OUTPUT-LENGTH'' \<mapsto> ''5''])
   = Some (Completed [Sleep (1 / 10)]
       \<lparr>ccr_id = ''chatcmpl-01234567'', ccr_object = ''chat.completion'',
        ccr_created = 1700000000, ccr_model = ''gpt-4'',
        ccr_choices =
          [\<lparr>ch_index = 0,
            ch_message = \<lparr>msg_role = ''assistant'',
                           msg_content = Some (Plain ''Hello! How can I assist'')\<rparr>,
            ch_finish_reason = Some ''stop''\<rparr>],
        ccr_usage = \<lparr>prompt_tokens = 9, completion_tokens = 5, total_tokens = 14\<rparr>\<rparr>)
   \<and> count_tokens (Some word_encoder) ''Hello! How can I assist'' = 5
   \<and> int (length (str_of_messages sample_runtime
         [\<lparr>msg_role = ''user'', msg_content = Some (Plain ''Hi'')\<rparr>])) div 4 = 9"
proof -
  have run: "chat_completions sample_runtime (Some word_encoder) sample_env
     (sample_request False [''X-OUTPUT-LENGTH'' \<mapsto> ''5''])
   = Some (Completed [Sleep (1 / 10)]
       \<lparr>ccr_id = ''chatcmpl-01234567'', ccr_object = ''chat.completion'',
        ccr_created = 1700000000, ccr_model = ''gpt-4'',
        ccr_choices =
          [\<lparr>ch_index = 0,
            ch_message = \<lparr>msg_role = ''assistant'',
                           msg_content = Some (Plain ''Hello! How can I assist'')\<rparr>,
            ch_finish_reason = Some ''stop''\<rparr>],
        ccr_usage = \<lparr>prompt_tokens = 9, completion_tokens = 5, total_tokens = 14\<rparr>\<rparr>)"
    by code_simp
  from usage_accounting [OF run] show ?thesis
    using run by (auto simp: sample_request_def)
qed

text \<open>
  C8. For a request that is not streaming, two values of the X-ITL-MS header (either may
  be absent) that both are numbers give the same response: the same completed message,
  usage and awaited delay, all other inputs and random choices being equal.
\<close>

theorem inter_token_delay_irrelevant:
  assumes "\<forall>rd. json_body request = Inr rd \<longrightarrow> rq_stream rd \<noteq> Some True"
    and "case v of None \<Rightarrow> True | Some s \<Rightarrow> \<exists>x. float_of_str R s = Inr x"
    and "case v' of None \<Rightarrow> True | Some s \<Rightarrow> \<exists>x. float_of_str R s = Inr x"
  shows "chat_completions R encoding world (request\<lparr>headers := (headers request)(''X-ITL-MS'' := v)\<rparr>)
       = chat_completions R encoding world (request\<lparr>headers := (headers request)(''X-ITL-MS'' := v')\<rparr>)"
  using assms
  by (cases "json_body request")
     (auto simp: chat_completions_def get_timing_params_def
           split: sum.splits prod.splits option.splits)

theorem inter_token_delay_irrelevant_witness:
  "chat_completions sample_runtime (Some word_encoder) sample_env
     (sample_request False [''X-ITL-MS'' \<mapsto> ''0''])
   = chat_completions sample_runtime (Some word_encoder) sample_env
     (sample_request False [''X-ITL-MS'' \<mapsto> ''750''])
   \<and> completed_content (chat_completions sample_runtime (Some word_encoder) sample_env
     (sample_request False [''X-ITL-MS'' \<mapsto> ''750''])) \<noteq> None"
proof -
  have a: "\<forall>rd. json_body (sample_request False Map.empty) = Inr rd \<longrightarrow> rq_stream rd \<noteq> Some True"
    by (simp add: sample_request_def)
  have "float_of_str sample_runtime ''0'' = Inr 0"
    by code_simp
  then have b: "case Some ''0'' of None \<Rightarrow> True
                | Some s \<Rightarrow> \<exists>x. float_of_str sample_runtime s = Inr x"
    by simp
  have "float_of_str sample_runtime ''750'' = Inr 750"
    by code_simp
  then have c: "case Some ''750'' of None \<Rightarrow> True
                | Some s \<Rightarrow> \<exists>x. float_of_str sample_runtime s = Inr x"
    by simp
  have d: "completed_content (chat_completions sample_runtime (Some word_encoder) sample_env
     (sample_request False [''X-ITL-MS'' \<mapsto> ''750''])) \<noteq> None"
    by code_simp
  from inter_token_delay_irrelevant [OF a b c, of "Some word_encoder" sample_env] d
  show ?thesis by (simp add: sample_request_def)
qed

section \<open>The streaming path\<close>

lemma frames_of_simps [simp]:
  "frames_of [] = []"
  "frames_of (Sleep d # evs) = frames_of evs"
  "frames_of (Yield f # evs) = f # frames_of evs"
  "frames_of (evs @ evs') = frames_of evs @ frames_of evs'"
  by (simp_all add: frames_of_def)

lemma frames_of_stream_words:
  "frames_of (stream_words itl mk i ws) = map (\<lambda>w. mk (w @ '' '')) ws"
  by (induction ws arbitrary: i) simp_all

lemma frames_of_stream_tokens:
  "\<exists>txts. frames_of (fst (stream_tokens e itl mk i ts)) = map mk txts"
proof (induction ts arbitrary: i)
  case Nil
  then show ?case by simp
next
  case (Cons t ts)
  show ?case
  proof (cases "decode e [t]")
    case (Inl err)
    then show ?thesis by simp
  next
    case (Inr tx)
    from Cons.IH [of "Suc i"] obtain txts
      where "frames_of (fst (stream_tokens e itl mk (Suc i) ts)) = map mk txts" ..
    with Inr have "frames_of (fst (stream_tokens e itl mk i (t # ts))) = map mk (tx # txts)"
      by (cases "stream_tokens e itl mk (Suc i) ts") (simp add: Let_def)
    then show ?thesis ..
  qed
qed

lemma frames_of_stream_body:
  "\<exists>txts. frames_of (stream_body encoding itl mk content) = map mk txts"
proof (cases encoding)
  case None
  then have "frames_of (stream_body encoding itl mk content)
        = map mk (map (\<lambda>w. w @ '' '') (split_ws content))"
    by (simp add: stream_body_def frames_of_stream_words comp_def)
  then show ?thesis ..
next
  case (Some e)
  show ?thesis
  proof (cases "encode e content")
    case (Inl err)
    with Some have "frames_of (stream_body encoding itl mk content)
        = map mk (map (\<lambda>w. w @ '' '') (split_ws content))"
      by (simp add: stream_body_def frames_of_stream_words comp_def)
    then show ?thesis ..
  next
    case (Inr tokens)
    obtain evs0 r where st: "stream_tokens e itl mk 0 tokens = (evs0, r)"
      by (cases "stream_tokens e itl mk 0 tokens")
    from frames_of_stream_tokens [of e itl mk 0 tokens] st
    obtain txts where t: "frames_of evs0 = map mk txts" by auto
    show ?thesis
    proof (cases r)
      case None
      with Some Inr t st have "frames_of (stream_body encoding itl mk content) = map mk txts"
        by (simp add: stream_body_def)
      then show ?thesis ..
    next
      case (Some err)
      with \<open>encoding = Some e\<close> Inr t st
      have "frames_of (stream_body encoding itl mk content)
          = map mk (txts @ map (\<lambda>w. w @ '' '') (split_ws content))"
        by (simp add: stream_body_def frames_of_stream_words comp_def)
      then show ?thesis ..
    qed
  qed
qed

lemma stream_response_frames:
  assumes "stream_response R encoding world rd ttft itl n = Some (evs, None)"
  shows "\<exists>txts. frames_of evs =
           Data (stream_chunk (''chatcmpl-'' @ take 8 (uuid4_hex world)) (time_time world [])
                   (rq_model rd) [(''role'', ''assistant''), (''content'', [])] None)
           # map (\<lambda>t. Data (stream_chunk (''chatcmpl-'' @ take 8 (uuid4_hex world))
                   (time_time world []) (rq_model rd) [(''content'', t)] None)) txts
           @ [Data (stream_chunk (''chatcmpl-'' @ take 8 (uuid4_hex world)) (time_time world [])
                   (rq_model rd) [] (Some ''stop'')), done_frame]"
proof -
  from assms obtain content where
    evs: "evs = [Sleep ttft,
                 Yield (Data (stream_chunk (''chatcmpl-'' @ take 8 (uuid4_hex world))
                   (time_time world []) (rq_model rd)
                   [(''role'', ''assistant''), (''content'', [])] None))]
            @ stream_body encoding itl
                (\<lambda>t. Data (stream_chunk (''chatcmpl-'' @ take 8 (uuid4_hex world))
                   (time_time world []) (rq_model rd) [(''content'', t)] None)) content
            @ [Yield (Data (stream_chunk (''chatcmpl-'' @ take 8 (uuid4_hex world))
                   (time_time world []) (rq_model rd) [] (Some ''stop''))), Yield done_frame]"
    by (auto simp: stream_response_def Let_def split: option.splits sum.splits)
  let ?mk = "\<lambda>t. Data (stream_chunk (''chatcmpl-'' @ take 8 (uuid4_hex world))
                   (time_time world []) (rq_model rd) [(''content'', t)] None)"
  from frames_of_stream_body [of encoding itl ?mk content]
  obtain txts where "frames_of (stream_body encoding itl ?mk content) = map ?mk txts" ..
  with evs have "frames_of evs =
           Data (stream_chunk (''chatcmpl-'' @ take 8 (uuid4_hex world)) (time_time world [])
                   (rq_model rd) [(''role'', ''assistant''), (''content'', [])] None)
           # map ?mk txts
           @ [Data (stream_chunk (''chatcmpl-'' @ take 8 (uuid4_hex world)) (time_time world [])
                   (rq_model rd) [] (Some ''stop'')), done_frame]"
    by simp
  then show ?thesis by (rule exI [where x = txts])
qed

lemma sample_stream_runs:
  "\<exists>evs. stream_response sample_runtime (Some word_encoder) sample_env
            \<lparr>rq_model = ''gpt-4'', rq_messages = [], rq_stream = Some True,
             rq_max_tokens = None, rq_temperature = None\<rparr> (1 / 10) (1 / 20) 2
          = Some (evs, None)"
proof -
  have "case stream_response sample_runtime (Some word_encoder) sample_env
            \<lparr>rq_model = ''gpt-4'', rq_messages = [], rq_stream = Some True,
             rq_max_tokens = None, rq_temperature = None\<rparr> (1 / 10) (1 / 20) 2 of
          Some (evs, None) \<Rightarrow> True | _ \<Rightarrow> False"
    by code_simp
  then show ?thesis by (auto split: option.splits prod.splits)
qed

text \<open>
  C9. Every chunk of a stream carries the same id and the same creation time: the id built
  from the request's one UUID, and the clock as read before any delay was awaited. The
  first thing the generator does after fixing them is to await the first-token delay.
\<close>

theorem stream_id_created_fixed:
  assumes "stream_response R encoding world rd ttft itl n = Some (evs, exc)"
  shows "(\<exists>rest. evs = Sleep ttft # rest)
         \<and> (\<forall>c \<in> set (chunks_of evs).
               csr_id c = ''chatcmpl-'' @ take 8 (uuid4_hex world)
               \<and> csr_created c = time_time world [])"
proof (cases exc)
  case None
  from stream_response_frames [OF assms [unfolded None]] obtain txts where
    f: "frames_of evs =
           Data (stream_chunk (''chatcmpl-'' @ take 8 (uuid4_hex world)) (time_time world [])
                   (rq_model rd) [(''role'', ''assistant''), (''content'', [])] None)
           # map (\<lambda>t. Data (stream_chunk (''chatcmpl-'' @ take 8 (uuid4_hex world))
                   (time_time world []) (rq_model rd) [(''content'', t)] None)) txts
           @ [Data (stream_chunk (''chatcmpl-'' @ take 8 (uuid4_hex world)) (time_time world [])
                   (rq_model rd) [] (Some ''stop'')), done_frame]"
    by blast
  have "\<exists>rest. evs = Sleep ttft # rest"
    using assms by (auto simp: stream_response_def Let_def split: option.splits sum.splits)
  moreover have "\<forall>c \<in> set (chunks_of evs).
               csr_id c = ''chatcmpl-'' @ take 8 (uuid4_hex world)
               \<and> csr_created c = time_time world []"
    by (auto simp: chunks_of_def f done_frame_def stream_chunk_def)
  ultimately show ?thesis by blast
next
  case (Some err)
  with assms have "evs = [Sleep ttft]"
    by (auto simp: stream_response_def Let_def split: option.splits sum.splits)
  then show ?thesis by (simp add: chunks_of_def)
qed

theorem stream_id_created_fixed_witness:
  "\<exists>evs. stream_response sample_runtime (Some word_encoder) sample_env
            \<lparr>rq_model = ''gpt-4'', rq_messages = [], rq_stream = Some True,
             rq_max_tokens = None, rq_temperature = None\<rparr> (1 / 10) (1 / 20) 2
          = Some (evs, None)
        \<and> (\<exists>rest. evs = Sleep (1 / 10) # rest)
        \<and> length (chunks_of evs) = 4
        \<and> (\<forall>c \<in> set (chunks_of evs).
               csr_id c = ''chatcmpl-01234567'' \<and> csr_created c = 1700000000)"
proof -
  from sample_stream_runs obtain evs where
    run: "stream_response sample_runtime (Some word_encoder) sample_env
            \<lparr>rq_model = ''gpt-4'', rq_messages = [], rq_stream = Some True,
             rq_max_tokens = None, rq_temperature = None\<rparr> (1 / 10) (1 / 20) 2
          = Some (evs, None)" ..
  have len: "case stream_response sample_runtime (Some word_encoder) sample_env
            \<lparr>rq_model = ''gpt-4'', rq_messages = [], rq_stream = Some True,
             rq_max_tokens = None, rq_temperature = None\<rparr> (1 / 10) (1 / 20) 2 of
          Some (evs, _) \<Rightarrow> length (chunks_of evs) = 4 | _ \<Rightarrow> False"
    by code_simp
  have "''chatcmpl-'' @ take 8 (uuid4_hex sample_env) = ''chatcmpl-01234567''"
       "time_time sample_env [] = 1700000000"
    by (simp_all add: sample_env_def)
  with run len stream_id_created_fixed [OF run] show ?thesis by auto
qed

section \<open>The synthesizer under exact truncation\<close>


















section \<open>The word tokenizer truncates exactly\<close>

lemma pieces_Nil_iff [simp]: "pieces s = [] \<longleftrightarrow> s = []"
  by (cases s) (auto split: list.splits)

lemma concat_pieces [simp]: "concat (pieces s) = s"
  by (induction s) (auto split: list.splits)











lemma word_encoder_simps [simp]:
  "encode word_encoder s = Inr (pieces s)"
  "decode word_encoder ts = Inr (concat ts)"
  "text_of word_encoder ts = concat ts"
  by (simp_all add: text_of_def word_encoder_def)








section \<open>An encoder that gives no tokens\<close>



section \<open>Token counts of synthesized content\<close>







section \<open>Frames and Delta chunks of a stream\<close>












lemma headers_with_stream [simp]: "headers (with_stream b request) = headers request"
  by (simp add: with_stream_def)

lemma get_timing_params_with_stream [simp]:
  "get_timing_params R (with_stream b request) = get_timing_params R request"
  unfolding get_timing_params_def headers_with_stream ..





end
